theory Spec2Isabelle
  imports Main "HOL-Library.AList"
begin

section \<open>Python objects and exceptions\<close>

text \<open>
  The values that reach the hint testers. A type hint is an immutable Python object;
  what the testers inspect is its kind and its child objects.
  \<^item> \<open>PyClass\<close>: a class such as \<open>int\<close> or \<open>object\<close>, by name;
  \<^item> \<open>PyStr\<close>: a string (a forward reference when used as a hint);
  \<^item> \<open>PyTuple\<close>: a tuple (the PEP-noncompliant tuple union when its items are classes);
  \<^item> \<open>PyList\<close>: a list, the standard unhashable object;
  \<^item> \<open>PyAny\<close>: \<open>typing.Any\<close>;
  \<^item> \<open>PyUnion\<close>: \<open>typing.Union[...]\<close> with its child hints;
  \<^item> \<open>PyAnnotated\<close>: \<open>Annotated[origin, metadata...]\<close>, origin first;
  \<^item> \<open>PyGeneric\<close>: any other subscripted PEP-compliant hint, such as \<open>list[int]\<close>;
  \<^item> \<open>PyInt\<close>: an integer, an object that is no hint at all.
\<close>

datatype pyobj =
    PyClass string
  | PyStr string
  | PyTuple "pyobj list"
  | PyList "pyobj list"
  | PyAny
  | PyUnion "pyobj list"
  | PyAnnotated pyobj "pyobj list"
  | PyGeneric string "pyobj list"
  | PyInt int

text \<open>An object instance: the value together with its identity (\<open>id(obj)\<close>).
  Python's \<open>is\<close> compares \<open>oid\<close>; structural equality compares \<open>val\<close>.\<close>

datatype pyinst = Obj (oid: nat) (val: pyobj)

datatype exn =
    TypeError
  | AttributeError
  | BeartypeDecorHintPepUnsupportedException
  | BeartypeDecorHintNonPepException
  | BeartypeClawRegistrationException

text \<open>The builtin \<open>hash\<close> succeeds on a container exactly when it succeeds on every
  item; a list is never hashable. A union hashes the set of its children, an annotated
  hint hashes its origin and its metadata.\<close>

fun hashable :: "pyobj \<Rightarrow> bool" where
  "hashable (PyList xs) = False"
| "hashable (PyTuple xs) = (\<forall>x \<in> set xs. hashable x)"
| "hashable (PyUnion xs) = (\<forall>x \<in> set xs. hashable x)"
| "hashable (PyAnnotated origin md) = (hashable origin \<and> (\<forall>x \<in> set md. hashable x))"
| "hashable (PyGeneric n xs) = (\<forall>x \<in> set xs. hashable x)"
| "hashable (PyClass n) = True"
| "hashable (PyStr s) = True"
| "hashable PyAny = True"
| "hashable (PyInt i) = True"

section \<open>utilhinttest: the classifier\<close>

text \<open>Modelled from the spec: the decorator \<open>callable_cached\<close> of
  \<open>beartype._util.cache.utilcachecall\<close>, which is not among the sources. The docstrings of
  the functions it decorates say that it raises \<open>TypeError\<close> when the passed object is
  unhashable; for a hashable object the memoized call returns what the body returns (the
  body is a function of its arguments alone, so the cache never changes a result).\<close>

definition callable_cached :: "(pyobj \<Rightarrow> 'a) \<Rightarrow> pyobj \<Rightarrow> exn + 'a" where
  "callable_cached body hint = (if hashable hint then Inr (body hint) else Inl TypeError)"

text \<open>\<open>is_hint_pep\<close> of \<open>utilhintpeptest\<close> is not among the sources; on this data
  model the PEP-compliant hints are the typing objects.\<close>

fun is_hint_pep :: "pyobj \<Rightarrow> bool" where
  "is_hint_pep PyAny = True"
| "is_hint_pep (PyUnion xs) = True"
| "is_hint_pep (PyAnnotated origin md) = True"
| "is_hint_pep (PyGeneric n xs) = True"
| "is_hint_pep h = False"

text \<open>Modelled from the spec: \<open>is_hint_nonpep\<close> of \<open>utilhintnonpeptest\<close>, not among the
  sources. A PEP-noncompliant hint is a class, a class name (a string, where strings are
  allowed) or a tuple of one or more of these.\<close>

fun is_hint_nonpep_item :: "bool \<Rightarrow> pyobj \<Rightarrow> bool" where
  "is_hint_nonpep_item is_str_valid (PyClass n) = True"
| "is_hint_nonpep_item is_str_valid (PyStr s) = is_str_valid"
| "is_hint_nonpep_item is_str_valid h = False"

fun is_hint_nonpep :: "pyobj \<Rightarrow> bool \<Rightarrow> bool" where
  "is_hint_nonpep (PyTuple xs) is_str_valid =
     (xs \<noteq> [] \<and> (\<forall>x \<in> set xs. is_hint_nonpep_item is_str_valid x))"
| "is_hint_nonpep h is_str_valid = is_hint_nonpep_item is_str_valid h"

text \<open>Modelled from the spec: the two validators \<open>die_unless_hint_pep_supported\<close> and
  \<open>die_unless_hint_nonpep\<close>, not among the sources, raise their exception unless the
  tester of the same name holds. Which PEP-compliant hints are supported is the
  parameter \<open>is_hint_pep_supported\<close>.\<close>

definition die_unless_hint_pep_supported :: "(pyobj \<Rightarrow> bool) \<Rightarrow> pyobj \<Rightarrow> string \<Rightarrow> exn + unit" where
  "die_unless_hint_pep_supported is_hint_pep_supported hint hint_label =
     (if is_hint_pep_supported hint then Inr ()
      else Inl BeartypeDecorHintPepUnsupportedException)"

definition die_unless_hint_nonpep :: "pyobj \<Rightarrow> string \<Rightarrow> bool \<Rightarrow> exn + unit" where
  "die_unless_hint_nonpep hint hint_label is_str_valid =
     (if is_hint_nonpep hint is_str_valid then Inr ()
      else Inl BeartypeDecorHintNonPepException)"

text \<open>\<open>is_hint\<close>: memoized; the body is the conditional expression of the source.\<close>

definition is_hint :: "(pyobj \<Rightarrow> bool) \<Rightarrow> pyobj \<Rightarrow> bool \<Rightarrow> exn + bool" where
  "is_hint is_hint_pep_supported hint is_str_valid =
     callable_cached
       (\<lambda>h. if is_hint_pep h then is_hint_pep_supported h
            else is_hint_nonpep h is_str_valid)
       hint"

text \<open>\<open>die_unless_hint\<close>: the fast path through \<open>is_hint\<close> (whose exception
  propagates), then the two validators in the order of the source.\<close>

definition die_unless_hint :: "(pyobj \<Rightarrow> bool) \<Rightarrow> pyobj \<Rightarrow> string \<Rightarrow> bool \<Rightarrow> exn + unit" where
  "die_unless_hint is_hint_pep_supported hint hint_label is_str_valid =
     (case is_hint is_hint_pep_supported hint is_str_valid of
        Inl e \<Rightarrow> Inl e
      | Inr True \<Rightarrow> Inr ()
      | Inr False \<Rightarrow>
          (case (if is_hint_pep hint
                 then die_unless_hint_pep_supported is_hint_pep_supported hint hint_label
                 else Inr ()) of
             Inl e \<Rightarrow> Inl e
           | Inr u \<Rightarrow> die_unless_hint_nonpep hint hint_label is_str_valid))"

section \<open>utilhinttest: the ignorability analyzer\<close>

text \<open>
  \<open>is_hint_ignorable\<close> is memoized, so every call, the recursive ones included, first
  hashes its argument. \<open>HINTS_SHALLOW_IGNORABLE\<close> (not among the sources) is the
  parameter \<open>shallow\<close>. The sign of a hint is its constructor here: the union signs of
  \<open>HINT_PEP_SIGNS_UNION\<close> are \<open>PyUnion\<close>, the sign \<open>Annotated\<close> is \<open>PyAnnotated\<close>,
  the children of a union are \<open>get_hint_pep_args\<close>, the first component of an annotated
  hint is its \<open>__origin__\<close>. \<open>any_ignorable\<close> is the builtin \<open>any\<close> over the
  generator: it stops at the first child that is ignorable, and an exception raised by a
  child before that propagates.
\<close>

fun is_hint_ignorable :: "pyobj set \<Rightarrow> pyobj \<Rightarrow> exn + bool"
  and any_ignorable :: "pyobj set \<Rightarrow> pyobj list \<Rightarrow> exn + bool" where
  "is_hint_ignorable shallow (PyUnion cs) =
     (if \<not> hashable (PyUnion cs) then Inl TypeError
      else if PyUnion cs \<in> shallow then Inr True
      else any_ignorable shallow cs)"
| "is_hint_ignorable shallow (PyAnnotated origin md) =
     (if \<not> hashable (PyAnnotated origin md) then Inl TypeError
      else if PyAnnotated origin md \<in> shallow then Inr True
      else is_hint_ignorable shallow origin)"
| "is_hint_ignorable shallow hint =
     (if \<not> hashable hint then Inl TypeError
      else if hint \<in> shallow then Inr True
      else Inr False)"
| "any_ignorable shallow [] = Inr False"
| "any_ignorable shallow (c # cs) =
     (case is_hint_ignorable shallow c of
        Inl e \<Rightarrow> Inl e
      | Inr True \<Rightarrow> Inr True
      | Inr False \<Rightarrow> any_ignorable shallow cs)"

section \<open>utilbeartypefunc: callables and the wrapper marker\<close>

text \<open>
  A callable, as far as these modules read and write it:
  \<^item> \<open>annotations\<close>: the \<open>__annotations__\<close> dictionary in insertion order, from the
    name of a parameter (or \<open>return\<close>) to the hint instance; \<open>None\<close> when the callable
    declares no such attribute (the source names the functions of the \<open>operator\<close> module);
  \<^item> \<open>no_type_check\<close>: whether \<open>is_func_pep484_notypechecked\<close> (not among the sources)
    holds, that is, whether \<open>typing.no_type_check\<close> marked the callable;
  \<^item> \<open>beartype_wrapper\<close>: the attribute \<open>__beartype_wrapper\<close>, \<open>None\<close> when absent.
  \<^item> \<open>setattr_error\<close>: what the assignment of a new attribute to the callable raises:
    nothing for a function object (so for every wrapper the decorator generates),
    \<open>AttributeError\<close> for a builtin function or a bound method, \<open>TypeError\<close> for a
    builtin class.
\<close>

record callable =
  annotations :: "(string \<times> pyinst) list option"
  no_type_check :: bool
  beartype_wrapper :: "bool option"
  setattr_error :: "exn option"

definition is_func_beartyped :: "callable \<Rightarrow> bool" where
  "is_func_beartyped func = (beartype_wrapper func \<noteq> None)"

text \<open>\<open>set_func_beartyped\<close>: the assignment \<open>func.__beartype_wrapper = True\<close> is not
  guarded; when it raises, the callable is left as it was.\<close>

definition set_func_beartyped :: "callable \<Rightarrow> exn + callable" where
  "set_func_beartyped func =
     (case setattr_error func of
        Some e \<Rightarrow> Inl e
      | None \<Rightarrow> Inr (func\<lparr>beartype_wrapper := Some True\<rparr>))"

text \<open>\<open>is_func_unbeartypeable\<close> of \<open>_util/func/mod\<close>: the attribute is read with
  \<open>getattr(func, '__annotations__', None)\<close>. The first parameter is what
  \<open>is_sphinx_autodocing()\<close> returns at the time of the call.\<close>

definition is_func_unbeartypeable :: "bool \<Rightarrow> callable \<Rightarrow> exn + bool" where
  "is_func_unbeartypeable sphinx_autodocing func =
     Inr ((case annotations func of None \<Rightarrow> True | Some d \<Rightarrow> d = []) \<or>
          no_type_check func \<or>
          is_func_beartyped func \<or>
          sphinx_autodocing)"

text \<open>\<open>is_func_unbeartypeable\<close> of \<open>_util/func/lib\<close>: the attribute is read with
  \<open>func.__annotations__\<close>, which raises \<open>AttributeError\<close> when it is missing.\<close>

definition lib_is_func_unbeartypeable :: "bool \<Rightarrow> callable \<Rightarrow> exn + bool" where
  "lib_is_func_unbeartypeable sphinx_autodocing func =
     (case annotations func of
        None \<Rightarrow> Inl AttributeError
      | Some d \<Rightarrow>
          Inr (d = [] \<or> no_type_check func \<or> is_func_beartyped func \<or> sphinx_autodocing))"

section \<open>cachehint: coercing and caching a hint\<close>

text \<open>
  \<open>cache_hint_nonpep563\<close>. The state it can touch is the callable (its annotations) and
  the module dictionary \<open>_HINT_REPR_TO_HINT\<close>; both are passed in and returned.
  \<open>Union.__getitem__\<close> belongs to the \<open>typing\<close> module of the host and is the parameter
  \<open>Union_getitem\<close>: given the items of the tuple it returns the union instance or
  raises. The right-hand side of the chained assignment is evaluated first, then bound
  to \<open>hint\<close>, then stored in the annotations; \<open>die_unless_hint\<close> runs after that with
  the default \<open>is_str_valid=True\<close>. The two assertions hold by the types of \<open>func\<close> and
  \<open>pith_name\<close>.
\<close>

definition is_tuple :: "pyobj \<Rightarrow> bool" where
  "is_tuple h = (case h of PyTuple xs \<Rightarrow> True | _ \<Rightarrow> False)"

definition tuple_items :: "pyobj \<Rightarrow> pyobj list" where
  "tuple_items h = (case h of PyTuple xs \<Rightarrow> xs | _ \<Rightarrow> [])"



definition cache_hint_nonpep563 ::
  "(pyobj list \<Rightarrow> exn + pyinst) \<Rightarrow> (pyobj \<Rightarrow> bool) \<Rightarrow> (string \<times> pyinst) list \<Rightarrow>
   callable \<Rightarrow> string \<Rightarrow> pyinst \<Rightarrow> string \<Rightarrow>
   (exn + pyinst) \<times> callable \<times> (string \<times> pyinst) list" where
  "cache_hint_nonpep563 Union_getitem supported HINT_REPR_TO_HINT func pith_name hint hint_label =
     (case (if is_tuple (val hint) then
              (case Union_getitem (tuple_items (val hint)) of
                 Inl e \<Rightarrow> Inl e
               | Inr u \<Rightarrow>
                   (case annotations func of
                      None \<Rightarrow> Inl AttributeError
                    | Some d \<Rightarrow>
                        Inr (u, func\<lparr>annotations := Some (AList.update pith_name u d)\<rparr>)))
            else Inr (hint, func)) of
        Inl e \<Rightarrow> (Inl e, func, HINT_REPR_TO_HINT)
      | Inr (hint', func') \<Rightarrow>
          (case die_unless_hint supported (val hint') hint_label True of
             Inl e \<Rightarrow> (Inl e, func', HINT_REPR_TO_HINT)
           | Inr u \<Rightarrow> (Inr hint', func', HINT_REPR_TO_HINT)))"

section \<open>clawpkgadd: the package registry\<close>

text \<open>
  A beartype configuration is a self-caching object: one instance per configuration, so
  that \<open>is\<close> on configurations is equality of their identities.
\<close>

datatype BeartypeConf = Conf nat

text \<open>
  \<open>PackageBasenameToSubpackages\<close> (declared in \<open>_clawpkgtrie\<close>, not among the sources) is
  a dictionary from basenames to dictionaries of the same class, with the attribute
  \<open>conf_if_added\<close>; a new one is empty and has no configuration. The dictionary is kept
  in insertion order with one entry per key.
\<close>

datatype PackageBasenameToSubpackages =
  Subpackages (conf_if_added: "BeartypeConf option")
              (entries: "(string \<times> PackageBasenameToSubpackages) list")

text \<open>\<open>str.split('.')\<close>: the pieces between the dots; never the empty list.\<close>

fun split_dot :: "string \<Rightarrow> string list" where
  "split_dot [] = [[]]"
| "split_dot (c # cs) =
     (if c = CHR ''.'' then [] # split_dot cs
      else (c # hd (split_dot cs)) # tl (split_dot cs))"

text \<open>The loop of \<open>get_package_conf_if_added\<close> over the basenames: the current
  subdictionary, the configuration found so far, the basenames still to visit.\<close>

fun conf_along :: "PackageBasenameToSubpackages \<Rightarrow> BeartypeConf option \<Rightarrow> string list \<Rightarrow>
    BeartypeConf option" where
  "conf_along subpackages_curr package_conf_if_added [] = package_conf_if_added"
| "conf_along subpackages_curr package_conf_if_added (package_basename # rest) =
     (case map_of (entries subpackages_curr) package_basename of
        None \<Rightarrow> package_conf_if_added
      | Some package_subpackages \<Rightarrow>
          conf_along package_subpackages
            (case conf_if_added package_subpackages of
               Some c \<Rightarrow> Some c
             | None \<Rightarrow> package_conf_if_added)
            rest)"

definition get_package_conf_if_added ::
  "PackageBasenameToSubpackages \<Rightarrow> string \<Rightarrow> BeartypeConf option" where
  "get_package_conf_if_added package_basename_to_subpackages package_name =
     (let package_basenames = split_dot package_name in
      if hd package_basenames = ''beartype'' then None
      else conf_along package_basename_to_subpackages
             (conf_if_added package_basename_to_subpackages) package_basenames)"

definition add_packages_all ::
  "PackageBasenameToSubpackages \<Rightarrow> BeartypeConf \<Rightarrow> (exn + unit) \<times> PackageBasenameToSubpackages" where
  "add_packages_all package_basename_to_subpackages conf =
     (case conf_if_added package_basename_to_subpackages of
        None \<Rightarrow> (Inr (), Subpackages (Some conf) (entries package_basename_to_subpackages))
      | Some conf_curr \<Rightarrow>
          if conf_curr \<noteq> conf
          then (Inl BeartypeClawRegistrationException, package_basename_to_subpackages)
          else (Inr (), package_basename_to_subpackages))"

text \<open>
  The argument \<open>package_names\<close> of \<open>add_packages\<close>: a single string, a collection
  (tuple, list, set: it has a length and can be iterated again), an iterator (a generator
  or the result of \<open>iter\<close>: always truthy, and exhausted after one pass) or an object that
  is not iterable. An item is a string or some other object.
\<close>

datatype pyitem = ItemStr string | ItemOther

datatype package_names_arg =
    NamesStr string
  | NamesCollection "pyitem list"
  | NamesIterator "pyitem list"
  | NamesNotIterable

text \<open>The validation loop; \<open>is_identifier\<close> (\<open>utiltextident\<close>, not among the sources)
  is a parameter.\<close>

fun validate_names :: "(string \<Rightarrow> bool) \<Rightarrow> pyitem list \<Rightarrow> exn + unit" where
  "validate_names is_identifier [] = Inr ()"
| "validate_names is_identifier (ItemOther # rest) = Inl BeartypeClawRegistrationException"
| "validate_names is_identifier (ItemStr package_name # rest) =
     (if \<not> is_identifier package_name then Inl BeartypeClawRegistrationException
      else validate_names is_identifier rest)"

text \<open>The inner loop of the registration with the statement that follows it: descend
  along the basenames, creating the subdictionaries that are missing, then register the
  configuration at the end of the path or compare it with the one found there. The
  dictionaries are mutated in place, so what was created stays when the exception is
  raised.\<close>

fun add_package :: "PackageBasenameToSubpackages \<Rightarrow> string list \<Rightarrow> BeartypeConf \<Rightarrow>
    (exn + unit) \<times> PackageBasenameToSubpackages" where
  "add_package subpackages_curr [] conf =
     (case conf_if_added subpackages_curr of
        None \<Rightarrow> (Inr (), Subpackages (Some conf) (entries subpackages_curr))
      | Some conf_curr \<Rightarrow>
          if conf_curr \<noteq> conf then (Inl BeartypeClawRegistrationException, subpackages_curr)
          else (Inr (), subpackages_curr))"
| "add_package subpackages_curr (package_basename # rest) conf =
     (let package_subpackages =
            (case map_of (entries subpackages_curr) package_basename of
               None \<Rightarrow> Subpackages None []
             | Some d \<Rightarrow> d);
          (r, package_subpackages') = add_package package_subpackages rest conf
      in (r, Subpackages (conf_if_added subpackages_curr)
               (AList.update package_basename package_subpackages' (entries subpackages_curr))))"

text \<open>The registration loop over the names; a non-string item has no \<open>split\<close>.\<close>

fun register_names :: "PackageBasenameToSubpackages \<Rightarrow> pyitem list \<Rightarrow> BeartypeConf \<Rightarrow>
    (exn + unit) \<times> PackageBasenameToSubpackages" where
  "register_names reg [] conf = (Inr (), reg)"
| "register_names reg (ItemOther # rest) conf = (Inl AttributeError, reg)"
| "register_names reg (ItemStr package_name # rest) conf =
     (case add_package reg (split_dot package_name) conf of
        (Inl e, reg') \<Rightarrow> (Inl e, reg')
      | (Inr u, reg') \<Rightarrow> register_names reg' rest conf)"

text \<open>\<open>add_packages\<close>. \<open>conf\<close> is a configuration by its type. A string is wrapped in
  a 1-tuple; an iterator passes the emptiness test whatever it holds, is consumed by the
  validation loop and yields nothing to the registration loop.\<close>

definition add_packages ::
  "(string \<Rightarrow> bool) \<Rightarrow> PackageBasenameToSubpackages \<Rightarrow> package_names_arg \<Rightarrow> BeartypeConf \<Rightarrow>
   (exn + unit) \<times> PackageBasenameToSubpackages" where
  "add_packages is_identifier package_basename_to_subpackages package_names conf =
     (case package_names of
        NamesNotIterable \<Rightarrow> (Inl BeartypeClawRegistrationException, package_basename_to_subpackages)
      | NamesStr s \<Rightarrow>
          (case validate_names is_identifier [ItemStr s] of
             Inl e \<Rightarrow> (Inl e, package_basename_to_subpackages)
           | Inr u \<Rightarrow> register_names package_basename_to_subpackages [ItemStr s] conf)
      | NamesCollection items \<Rightarrow>
          if items = [] then (Inl BeartypeClawRegistrationException, package_basename_to_subpackages)
          else (case validate_names is_identifier items of
                  Inl e \<Rightarrow> (Inl e, package_basename_to_subpackages)
                | Inr u \<Rightarrow> register_names package_basename_to_subpackages items conf)
      | NamesIterator items \<Rightarrow>
          (case validate_names is_identifier items of
             Inl e \<Rightarrow> (Inl e, package_basename_to_subpackages)
           | Inr u \<Rightarrow> register_names package_basename_to_subpackages [] conf))"

text \<open>Modelled from the spec: \<open>is_identifier\<close> of \<open>utiltextident\<close>, for the examples:
  a dot-delimited chain of identifiers, each a letter or underscore followed by letters,
  digits and underscores (ASCII).\<close>

definition is_ident_start :: "char \<Rightarrow> bool" where
  "is_ident_start c =
     (c \<in> set ''_abcdefghijklmnopqrstuvwxyzABCDEFGHIJKLMNOPQRSTUVWXYZ'')"

definition is_ident_char :: "char \<Rightarrow> bool" where
  "is_ident_char c = (is_ident_start c \<or> c \<in> set ''0123456789'')"

definition isidentifier :: "string \<Rightarrow> bool" where
  "isidentifier s = (case s of [] \<Rightarrow> False | c # cs \<Rightarrow> is_ident_start c \<and> list_all is_ident_char cs)"

definition is_identifier_ascii :: "string \<Rightarrow> bool" where
  "is_identifier_ascii text = list_all isidentifier (split_dot text)"

section \<open>Results about the classifier and the analyzer\<close>

lemma is_hint_ignorable_total:
  "hashable h \<Longrightarrow> \<exists>b. is_hint_ignorable shallow h = Inr b"
  "(\<forall>c \<in> set cs. hashable c) \<Longrightarrow> \<exists>b. any_ignorable shallow cs = Inr b"
  by (induction shallow h and shallow cs rule: is_hint_ignorable_any_ignorable.induct)
     (auto split: sum.splits bool.splits)

lemma any_ignorable_iff:
  "(\<forall>c \<in> set cs. hashable c) \<Longrightarrow>
     any_ignorable shallow cs = Inr (\<exists>c \<in> set cs. is_hint_ignorable shallow c = Inr True)"
proof (induction cs)
  case Nil
  show ?case by simp
next
  case (Cons c cs)
  from Cons.prems have "hashable c" by simp
  then obtain b where b: "is_hint_ignorable shallow c = Inr b"
    using is_hint_ignorable_total(1) by blast
  from Cons have ih: "any_ignorable shallow cs =
      Inr (\<exists>c \<in> set cs. is_hint_ignorable shallow c = Inr True)" by simp
  show ?case
  proof (cases b)
    case True
    with b show ?thesis by simp
  next
    case False
    with b ih show ?thesis by simp
  qed
qed

text \<open>
  Claim C5. An unhashable object makes \<open>is_hint\<close> raise \<open>TypeError\<close>, and so does
  \<open>die_unless_hint\<close>, which calls \<open>is_hint\<close> first: neither of the two classification
  exceptions is ever the outcome for such an object.
\<close>

theorem unhashable_raises_TypeError:
  "\<not> hashable hint \<Longrightarrow>
     is_hint supported hint is_str_valid = Inl TypeError \<and>
     die_unless_hint supported hint hint_label is_str_valid = Inl TypeError"
  by (simp add: is_hint_def die_unless_hint_def callable_cached_def)

theorem unhashable_raises_TypeError_witness:
  "\<not> hashable (PyList []) \<and>
   is_hint (\<lambda>h. True) (PyList []) True = Inl TypeError \<and>
   die_unless_hint (\<lambda>h. True) (PyList []) ''Annotated'' True = Inl TypeError"
  using unhashable_raises_TypeError [of "PyList []" "\<lambda>h. True" True "''Annotated''"]
  by simp

text \<open>
  Claim C3. A union hint that is hashable (as every supported hint is) and not shallowly
  ignorable is ignorable exactly when at least one of its children is ignorable.
\<close>

theorem union_ignorable_iff_any_child:
  "hashable (PyUnion cs) \<Longrightarrow> PyUnion cs \<notin> shallow \<Longrightarrow>
     is_hint_ignorable shallow (PyUnion cs) =
       Inr (\<exists>c \<in> set cs. is_hint_ignorable shallow c = Inr True)"
  using any_ignorable_iff [of cs shallow] by simp

theorem union_ignorable_iff_any_child_witness:
  "hashable (PyUnion [PyClass ''int'', PyAny]) \<and>
   PyUnion [PyClass ''int'', PyAny] \<notin> {PyAny, PyClass ''object''} \<and>
   is_hint_ignorable {PyAny, PyClass ''object''} (PyUnion [PyClass ''int'', PyAny]) = Inr True \<and>
   is_hint_ignorable {PyAny, PyClass ''object''} (PyUnion [PyClass ''int'', PyClass ''str''])
     = Inr False"
  using union_ignorable_iff_any_child
          [of "[PyClass ''int'', PyAny]" "{PyAny, PyClass ''object''}"]
        union_ignorable_iff_any_child
          [of "[PyClass ''int'', PyClass ''str'']" "{PyAny, PyClass ''object''}"]
  by simp

text \<open>
  Claim C7. An annotated hint that is hashable and not shallowly ignorable is ignorable
  exactly when its origin is; the metadata does not enter the result.
\<close>

theorem annotated_ignorable_iff_origin:
  "hashable (PyAnnotated origin md) \<Longrightarrow> PyAnnotated origin md \<notin> shallow \<Longrightarrow>
     is_hint_ignorable shallow (PyAnnotated origin md) = is_hint_ignorable shallow origin \<and>
     (\<exists>b. is_hint_ignorable shallow origin = Inr b)"
  using is_hint_ignorable_total(1) [of origin shallow] by simp

theorem annotated_ignorable_iff_origin_witness:
  "hashable (PyAnnotated PyAny [PyInt 50]) \<and>
   PyAnnotated PyAny [PyInt 50] \<notin> {PyAny, PyClass ''object''} \<and>
   is_hint_ignorable {PyAny, PyClass ''object''} (PyAnnotated PyAny [PyInt 50]) = Inr True \<and>
   is_hint_ignorable {PyAny, PyClass ''object''} (PyAnnotated (PyClass ''int'') [PyInt 50])
     = Inr False"
  using annotated_ignorable_iff_origin
          [of PyAny "[PyInt 50]" "{PyAny, PyClass ''object''}"]
        annotated_ignorable_iff_origin
          [of "PyClass ''int''" "[PyInt 50]" "{PyAny, PyClass ''object''}"]
  by simp

section \<open>Results about the wrapper marker\<close>

lemma is_func_unbeartypeable_iff:
  "is_func_unbeartypeable sphinx_autodocing func =
     Inr (annotations func = None \<or> annotations func = Some [] \<or> no_type_check func \<or>
          beartype_wrapper func \<noteq> None \<or> sphinx_autodocing)"
  by (cases "annotations func") (auto simp: is_func_unbeartypeable_def is_func_beartyped_def)

lemma lib_is_func_unbeartypeable_annotated:
  "annotations func = Some d \<Longrightarrow>
     lib_is_func_unbeartypeable sphinx_autodocing func =
       is_func_unbeartypeable sphinx_autodocing func"
  by (simp add: lib_is_func_unbeartypeable_def is_func_unbeartypeable_def)

text \<open>
  Claim C6. The tester of \<open>_util/func/mod\<close> returns the disjunction for every callable
  (lemma \<open>is_func_unbeartypeable_iff\<close>). The tester of \<open>_util/func/lib\<close> does not: on a
  callable that declares no \<open>__annotations__\<close> it raises \<open>AttributeError\<close> where the
  other returns \<open>True\<close>.
\<close>

theorem lib_is_func_unbeartypeable_raises:
  "lib_is_func_unbeartypeable False
     \<lparr>annotations = None, no_type_check = False, beartype_wrapper = None,
      setattr_error = Some AttributeError\<rparr>
     = Inl AttributeError \<and>
   is_func_unbeartypeable False
     \<lparr>annotations = None, no_type_check = False, beartype_wrapper = None,
      setattr_error = Some AttributeError\<rparr>
     = Inr True"
  by (simp add: lib_is_func_unbeartypeable_def is_func_unbeartypeable_def)

lemma set_func_beartyped_result_marked:
  "set_func_beartyped func = Inr func' \<Longrightarrow> is_func_beartyped func'"
  by (auto simp: set_func_beartyped_def is_func_beartyped_def split: option.splits)




section \<open>Results about cache_hint_nonpep563\<close>


lemma die_unless_hint_passes:
  "is_hint supported hint b = Inr True \<Longrightarrow> die_unless_hint supported hint l b = Inr ()"
  by (simp add: die_unless_hint_def)



text \<open>
  Claim C1. The function never reads or writes \<open>_HINT_REPR_TO_HINT\<close>: two distinct
  instances of the same non-self-cached hint \<open>list[int]\<close>, resolved one after the other,
  come back as they went in, still two instances, and the dictionary is still empty.
\<close>

theorem cache_hint_nonpep563_no_dedup:
  "cache_hint_nonpep563 (\<lambda>ms. Inr (Obj 100 (PyUnion ms))) (\<lambda>h. True) []
     \<lparr>annotations = Some [(''x'', Obj 1 (PyGeneric ''list'' [PyClass ''int'']))],
      no_type_check = False, beartype_wrapper = None, setattr_error = None\<rparr>
     ''x'' (Obj 1 (PyGeneric ''list'' [PyClass ''int''])) ''Annotated''
   = (Inr (Obj 1 (PyGeneric ''list'' [PyClass ''int''])),
      \<lparr>annotations = Some [(''x'', Obj 1 (PyGeneric ''list'' [PyClass ''int'']))],
       no_type_check = False, beartype_wrapper = None, setattr_error = None\<rparr>, []) \<and>
   cache_hint_nonpep563 (\<lambda>ms. Inr (Obj 100 (PyUnion ms))) (\<lambda>h. True) []
     \<lparr>annotations = Some [(''y'', Obj 2 (PyGeneric ''list'' [PyClass ''int'']))],
      no_type_check = False, beartype_wrapper = None, setattr_error = None\<rparr>
     ''y'' (Obj 2 (PyGeneric ''list'' [PyClass ''int''])) ''Annotated''
   = (Inr (Obj 2 (PyGeneric ''list'' [PyClass ''int''])),
      \<lparr>annotations = Some [(''y'', Obj 2 (PyGeneric ''list'' [PyClass ''int'']))],
       no_type_check = False, beartype_wrapper = None, setattr_error = None\<rparr>, []) \<and>
   val (Obj 1 (PyGeneric ''list'' [PyClass ''int''])) =
     val (Obj 2 (PyGeneric ''list'' [PyClass ''int''])) \<and>
   oid (Obj 1 (PyGeneric ''list'' [PyClass ''int''])) \<noteq>
     oid (Obj 2 (PyGeneric ''list'' [PyClass ''int'']))"
  by (simp add: cache_hint_nonpep563_def is_tuple_def die_unless_hint_def is_hint_def
        callable_cached_def)

text \<open>
  Claim C2. For a tuple hint whose union the host builds, on a callable that has
  annotations: the slot \<open>pith_name\<close> holds the union built from the items of the tuple,
  in their order, whether or not the validation that follows raises; the dictionary of
  cached hints is untouched; the call returns that union when the validation passes and
  raises what \<open>die_unless_hint\<close> raises on the union otherwise.
\<close>

theorem tuple_union_coercion:
  assumes "val hint = PyTuple members"
    and "Union_getitem members = Inr u"
    and "annotations func = Some d"
  shows "cache_hint_nonpep563 Union_getitem supported cache func pith_name hint hint_label =
           (case die_unless_hint supported (val u) hint_label True of
              Inl e \<Rightarrow> Inl e | Inr x \<Rightarrow> Inr u,
            func\<lparr>annotations := Some (AList.update pith_name u d)\<rparr>, cache) \<and>
         map_of (AList.update pith_name u d) pith_name = Some u \<and>
         (is_hint supported (val u) True = Inr True \<longrightarrow>
            fst (cache_hint_nonpep563 Union_getitem supported cache func pith_name hint
                   hint_label) = Inr u)"
  using assms
  by (simp add: cache_hint_nonpep563_def is_tuple_def tuple_items_def update_conv'
        die_unless_hint_passes split: sum.splits)

theorem tuple_union_coercion_witness:
  "cache_hint_nonpep563 (\<lambda>ms. Inr (Obj 100 (PyUnion ms))) (\<lambda>h. True) []
     \<lparr>annotations = Some [(''x'', Obj 1 (PyTuple [PyClass ''int'', PyClass ''str'']))],
      no_type_check = False, beartype_wrapper = None, setattr_error = None\<rparr>
     ''x'' (Obj 1 (PyTuple [PyClass ''int'', PyClass ''str''])) ''Annotated''
   = (Inr (Obj 100 (PyUnion [PyClass ''int'', PyClass ''str''])),
      \<lparr>annotations = Some [(''x'', Obj 100 (PyUnion [PyClass ''int'', PyClass ''str'']))],
       no_type_check = False, beartype_wrapper = None, setattr_error = None\<rparr>, [])"
  using tuple_union_coercion
          [of "Obj 1 (PyTuple [PyClass ''int'', PyClass ''str''])"
              "[PyClass ''int'', PyClass ''str'']"
              "\<lambda>ms. Inr (Obj 100 (PyUnion ms))"
              "Obj 100 (PyUnion [PyClass ''int'', PyClass ''str''])"
              "\<lparr>annotations = Some [(''x'', Obj 1 (PyTuple [PyClass ''int'', PyClass ''str'']))],
                no_type_check = False, beartype_wrapper = None, setattr_error = None\<rparr>"
              "[(''x'', Obj 1 (PyTuple [PyClass ''int'', PyClass ''str'']))]"
              "\<lambda>h. True" "[]" "''x''" "''Annotated''"]
  by (simp add: die_unless_hint_def is_hint_def callable_cached_def)




section \<open>Results about the package registry\<close>

lemma split_dot_nonempty: "split_dot s \<noteq> []"
  by (induction s) auto

lemma validate_names_error:
  "validate_names is_identifier items = Inl e \<Longrightarrow> e = BeartypeClawRegistrationException"
  by (induction is_identifier items rule: validate_names.induct) (auto split: if_splits)

lemma validate_names_invalid:
  "ItemOther \<in> set items \<or> (\<exists>s. ItemStr s \<in> set items \<and> \<not> is_identifier s) \<Longrightarrow>
     validate_names is_identifier items = Inl BeartypeClawRegistrationException"
  by (induction is_identifier items rule: validate_names.induct) auto

lemma add_package_again:
  "add_package reg basenames conf = (Inr (), reg') \<Longrightarrow>
     add_package reg' basenames conf = (Inr (), reg') \<and>
     (conf2 \<noteq> conf \<longrightarrow>
        add_package reg' basenames conf2 = (Inl BeartypeClawRegistrationException, reg'))"
proof (induction basenames arbitrary: reg reg')
  case Nil
  then show ?case
    by (auto split: option.splits if_splits)
next
  case (Cons b bs)
  define sub where "sub = (case map_of (entries reg) b of
                             None \<Rightarrow> Subpackages None [] | Some d \<Rightarrow> d)"
  obtain r sub' where rec: "add_package sub bs conf = (r, sub')"
    by (cases "add_package sub bs conf")
  from Cons.prems rec
  have r: "r = Inr ()"
    and reg': "reg' = Subpackages (conf_if_added reg) (AList.update b sub' (entries reg))"
    by (simp_all add: sub_def Let_def)
  from rec r have ih: "add_package sub' bs conf = (Inr (), sub') \<and>
     (conf2 \<noteq> conf \<longrightarrow>
        add_package sub' bs conf2 = (Inl BeartypeClawRegistrationException, sub'))"
    using Cons.IH [of sub sub'] by simp
  have look: "map_of (entries reg') b = Some sub'"
    by (simp add: reg' update_conv')
  have same: "Subpackages (conf_if_added reg') (AList.update b sub' (entries reg')) = reg'"
    by (simp add: reg')
  from ih look same show ?case
    by (simp add: Let_def)
qed

lemma add_packages_invalid_collection:
  "ItemOther \<in> set items \<or> (\<exists>s. ItemStr s \<in> set items \<and> \<not> is_identifier s) \<Longrightarrow>
     add_packages is_identifier reg (NamesCollection items) conf =
       (Inl BeartypeClawRegistrationException, reg)"
  using validate_names_invalid [of items is_identifier]
  by (auto simp: add_packages_def)

lemma add_packages_str_again:
  "add_packages is_identifier reg (NamesStr package_name) conf = (Inr (), reg') \<Longrightarrow>
     add_packages is_identifier reg' (NamesStr package_name) conf = (Inr (), reg') \<and>
     (conf2 \<noteq> conf \<longrightarrow>
        add_packages is_identifier reg' (NamesStr package_name) conf2 =
          (Inl BeartypeClawRegistrationException, reg'))"
proof -
  assume a: "add_packages is_identifier reg (NamesStr package_name) conf = (Inr (), reg')"
  then have valid: "is_identifier package_name"
    by (auto simp: add_packages_def split: if_splits)
  with a have "add_package reg (split_dot package_name) conf = (Inr (), reg')"
    by (auto simp: add_packages_def split: prod.splits sum.splits)
  from add_package_again [OF this, of conf2] valid show ?thesis
    by (auto simp: add_packages_def)
qed

text \<open>
  Claim C8. A conflicting configuration raises, the same configuration changes nothing
  and an invalid name raises before anything is registered (lemmas
  \<open>add_packages_str_again\<close> and \<open>add_packages_invalid_collection\<close>). An empty iterable
  raises only when it is a collection: an iterator is truthy, so the emptiness test lets
  the empty iterator through and the call returns without an exception.
\<close>

theorem add_packages_empty_iterator:
  "add_packages is_identifier (Subpackages None []) (NamesIterator []) (Conf 1) =
     (Inr (), Subpackages None []) \<and>
   add_packages is_identifier (Subpackages None []) (NamesCollection []) (Conf 1) =
     (Inl BeartypeClawRegistrationException, Subpackages None [])"
  by (simp add: add_packages_def)

text \<open>
  Claim C10. A package name whose first basename is \<open>beartype\<close> has no configuration,
  whatever the registry holds.
\<close>

theorem beartype_package_conf_None:
  "hd (split_dot package_name) = ''beartype'' \<Longrightarrow>
     get_package_conf_if_added package_basename_to_subpackages package_name = None"
  by (simp add: get_package_conf_if_added_def)

theorem beartype_package_conf_None_witness:
  "hd (split_dot ''beartype.claw'') = ''beartype'' \<and>
   get_package_conf_if_added
     (Subpackages (Some (Conf 1))
        [(''beartype'', Subpackages None [(''claw'', Subpackages (Some (Conf 2)) [])])])
     ''beartype.claw'' = None \<and>
   get_package_conf_if_added
     (Subpackages (Some (Conf 1))
        [(''beartype'', Subpackages None [(''claw'', Subpackages (Some (Conf 2)) [])])])
     ''numpy.linalg'' = Some (Conf 1)"
  using beartype_package_conf_None
          [of "''beartype.claw''"
              "Subpackages (Some (Conf 1))
                 [(''beartype'', Subpackages None [(''claw'', Subpackages (Some (Conf 2)) [])])]"]
  by (simp add: get_package_conf_if_added_def)

lemma registry_after_registration:
  "add_packages_all (Subpackages None []) (Conf 1) = (Inr (), Subpackages (Some (Conf 1)) []) \<and>
   add_packages is_identifier_ascii (Subpackages (Some (Conf 1)) []) (NamesStr ''beartype.claw'') (Conf 2)
     = (Inr (), Subpackages (Some (Conf 1))
          [(''beartype'', Subpackages None [(''claw'', Subpackages (Some (Conf 2)) [])])])"
  by (simp add: add_packages_all_def add_packages_def is_identifier_ascii_def isidentifier_def
        is_ident_start_def is_ident_char_def)

end
